theory Spec2Isabelle
  imports Complex_Main "HOL-Library.Sublist"
begin

section \<open>JSON values as Python sees them\<close>

text \<open>
  The handlers of \<^verbatim>\<open>app.py\<close> work on whatever \<^verbatim>\<open>request.get_json()\<close> hands them, and
  store the values of a body in the task dictionaries unchecked. The model therefore keeps
  the JSON value as a datatype. A Python float is a finite rational, an infinity or NaN
  (\<^verbatim>\<open>json.loads\<close> accepts the last three); \<open>JNull\<close> is Python's \<^verbatim>\<open>None\<close>. An object is the
  association list of a dict: the value at a key is \<open>map_of\<close> of the list.
\<close>

datatype pyfloat = Finite rat | PosInf | NegInf | NaN

datatype json =
    JNull
  | JBool bool
  | JInt int
  | JFloat pyfloat
  | JStr string
  | JArr "json list"
  | JObj "(string \<times> json) list"

text \<open>Python's truth value of an object, as \<^verbatim>\<open>if x\<close> and \<^verbatim>\<open>not x\<close> test it.\<close>

fun truthy :: "json \<Rightarrow> bool" where
  "truthy JNull = False"
| "truthy (JBool b) = b"
| "truthy (JInt n) = (n \<noteq> 0)"
| "truthy (JFloat (Finite q)) = (q \<noteq> 0)"
| "truthy (JFloat _) = True"
| "truthy (JStr s) = (s \<noteq> [])"
| "truthy (JArr xs) = (xs \<noteq> [])"
| "truthy (JObj kvs) = (kvs \<noteq> [])"

text \<open>
  The exceptions the handlers can meet. \<open>BadRequest\<close> and \<open>UnsupportedMediaType\<close> are the
  ones \<^verbatim>\<open>request.get_json()\<close> raises (both are subclasses of \<^verbatim>\<open>Exception\<close>); the others
  come from applying \<^verbatim>\<open>in\<close>, \<^verbatim>\<open>[...]\<close> and \<^verbatim>\<open>.get\<close> to a value that is no dict.
\<close>

datatype exn = BadRequest | UnsupportedMediaType | TypeError | AttributeError | KeyError

text \<open>\<^verbatim>\<open>key in data\<close>: key membership of a dict, element membership of a list, substring
  test of a string, \<^verbatim>\<open>TypeError\<close> on None, booleans and numbers.\<close>

fun py_contains :: "string \<Rightarrow> json \<Rightarrow> exn + bool" where
  "py_contains k (JObj kvs) = Inr (map_of kvs k \<noteq> None)"
| "py_contains k (JArr xs) = Inr (List.member xs (JStr k))"
| "py_contains k (JStr s) = Inr (sublist k s)"
| "py_contains k _ = Inl TypeError"

text \<open>\<^verbatim>\<open>data[key]\<close> with a string key.\<close>

fun py_getitem :: "json \<Rightarrow> string \<Rightarrow> exn + json" where
  "py_getitem (JObj kvs) k = (case map_of kvs k of None \<Rightarrow> Inl KeyError | Some v \<Rightarrow> Inr v)"
| "py_getitem _ k = Inl TypeError"

text \<open>\<^verbatim>\<open>data.get(key, default)\<close>: only a dict has the method.\<close>

fun py_get :: "json \<Rightarrow> string \<Rightarrow> json \<Rightarrow> exn + json" where
  "py_get (JObj kvs) k dflt = Inr (case map_of kvs k of None \<Rightarrow> dflt | Some v \<Rightarrow> v)"
| "py_get _ k dflt = Inl AttributeError"

text \<open>\<^verbatim>\<open>max(xs, default=d)\<close> on a list of integers.\<close>

definition py_max :: "int list \<Rightarrow> int \<Rightarrow> int" where
  "py_max xs d = (case xs of [] \<Rightarrow> d | y # ys \<Rightarrow> fold max ys y)"

text \<open>\<^verbatim>\<open>str(n)\<close> of a non-negative integer, and of any integer.\<close>

definition digit_char :: "nat \<Rightarrow> char" where
  "digit_char d = ''0123456789'' ! d"

fun str_nat :: "nat \<Rightarrow> string" where
  "str_nat n = (if n < 10 then [digit_char n] else str_nat (n div 10) @ [digit_char (n mod 10)])"

declare str_nat.simps [simp del]

definition str_int :: "int \<Rightarrow> string" where
  "str_int i = (if i < 0 then CHR ''-'' # str_nat (nat (- i)) else str_nat (nat i))"

section \<open>The task collection\<close>

text \<open>
  A task is a dict with the five keys below. \<open>task_id\<close> is its \<^verbatim>\<open>"id"\<close>: always an integer,
  since only \<^verbatim>\<open>create_task\<close> and the seed data write it. The title, the description and the
  completion flag hold whatever JSON value a request body carried.
\<close>

record task =
  task_id :: int
  title :: json
  description :: json
  completed :: json
  created_at :: string

text \<open>The module-level list \<^verbatim>\<open>tasks\<close> at start-up.\<close>

definition seed_tasks :: "task list" where
  "seed_tasks =
    [\<lparr>task_id = 1, title = JStr ''Learn Docker'',
      description = JStr ''Understand containerization'',
      completed = JBool False, created_at = ''2024-01-01T00:00:00Z''\<rparr>,
     \<lparr>task_id = 2, title = JStr ''Learn Kubernetes'',
      description = JStr ''Master container orchestration'',
      completed = JBool False, created_at = ''2024-01-02T00:00:00Z''\<rparr>]"

text \<open>
  \<^verbatim>\<open>next((task for task in tasks if task["id"] == task_id), None)\<close> yields a reference to
  the first task of the list with that id, or None. The reference is the position in the
  list: reading it is \<open>tasks ! i\<close>, assigning through it is a list update at \<open>i\<close>.
\<close>

fun next_task :: "int \<Rightarrow> task list \<Rightarrow> nat option" where
  "next_task tid [] = None"
| "next_task tid (t # ts) =
     (if task_id t = tid then Some 0 else map_option Suc (next_task tid ts))"

section \<open>Responses and handlers\<close>

text \<open>
  A response is the argument of \<^verbatim>\<open>jsonify\<close> with the status code. \<open>TaskList ts n\<close> is
  \<^verbatim>\<open>{"tasks": ts, "count": n}\<close>, \<open>Metrics t c p s\<close> is the object of the metrics endpoint
  with its timestamp \<open>s\<close>.
\<close>

datatype body =
    Error string
  | Message string
  | TaskJson task
  | TaskList "task list" nat
  | Metrics nat nat nat string

type_synonym response = "body \<times> nat"

text \<open>
  Every handler takes the collection and returns the response with the collection it
  leaves behind. The result of \<^verbatim>\<open>request.get_json()\<close> is an input of the handler: \<open>Inl e\<close>
  when the call raises (Flask raises \<open>BadRequest\<close> on a body that does not parse as JSON),
  \<open>Inr v\<close> when it returns \<open>v\<close> (\<open>JNull\<close> for None). The clock is an input too: \<open>now\<close> is
  \<^verbatim>\<open>datetime.utcnow().isoformat()\<close>.
\<close>

definition get_tasks :: "task list \<Rightarrow> response \<times> task list" where
  "get_tasks tasks = ((TaskList tasks (length tasks), 200), tasks)"

definition get_task :: "int \<Rightarrow> task list \<Rightarrow> response \<times> task list" where
  "get_task tid tasks =
     (case next_task tid tasks of
        Some i \<Rightarrow> ((TaskJson (tasks ! i), 200), tasks)
      | None \<Rightarrow> ((Error ''Task not found'', 404), tasks))"

text \<open>The body of a \<^verbatim>\<open>try\<close> block yields the exception or the response, and the collection
  as it stands at that point; \<^verbatim>\<open>except Exception\<close> turns every exception into a 500.\<close>

definition except_Exception :: "(exn + response) \<times> task list \<Rightarrow> response \<times> task list" where
  "except_Exception r =
     (case fst r of
        Inl e \<Rightarrow> ((Error ''Internal server error'', 500), snd r)
      | Inr resp \<Rightarrow> (resp, snd r))"

definition create_task_try ::
  "exn + json \<Rightarrow> string \<Rightarrow> task list \<Rightarrow> (exn + response) \<times> task list" where
  "create_task_try get_json now tasks =
     (case get_json of
        Inl e \<Rightarrow> (Inl e, tasks)
      | Inr data \<Rightarrow>
          if \<not> truthy data then (Inr (Error ''Title is required'', 400), tasks)
          else
            (case py_contains ''title'' data of
               Inl e \<Rightarrow> (Inl e, tasks)
             | Inr has_title \<Rightarrow>
                 if \<not> has_title then (Inr (Error ''Title is required'', 400), tasks)
                 else
                   (case py_getitem data ''title'' of
                      Inl e \<Rightarrow> (Inl e, tasks)
                    | Inr t \<Rightarrow>
                        (case py_get data ''description'' (JStr []) of
                           Inl e \<Rightarrow> (Inl e, tasks)
                         | Inr d \<Rightarrow>
                             let new_task =
                               \<lparr>task_id = py_max (map task_id tasks) 0 + 1,
                                title = t, description = d,
                                completed = JBool False,
                                created_at = now @ ''Z''\<rparr>
                             in (Inr (TaskJson new_task, 201), tasks @ [new_task])))))"

definition create_task :: "exn + json \<Rightarrow> string \<Rightarrow> task list \<Rightarrow> response \<times> task list" where
  "create_task get_json now tasks = except_Exception (create_task_try get_json now tasks)"

definition update_task_try ::
  "int \<Rightarrow> exn + json \<Rightarrow> task list \<Rightarrow> (exn + response) \<times> task list" where
  "update_task_try tid get_json tasks =
     (case next_task tid tasks of
        None \<Rightarrow> (Inr (Error ''Task not found'', 404), tasks)
      | Some i \<Rightarrow>
          (case get_json of
             Inl e \<Rightarrow> (Inl e, tasks)
           | Inr data \<Rightarrow>
               if \<not> truthy data then (Inr (Error ''No data provided'', 400), tasks)
               else
                 (case py_get data ''title'' (title (tasks ! i)) of
                    Inl e \<Rightarrow> (Inl e, tasks)
                  | Inr v1 \<Rightarrow>
                      let tasks1 = tasks[i := (tasks ! i)\<lparr>title := v1\<rparr>] in
                      (case py_get data ''description'' (description (tasks1 ! i)) of
                         Inl e \<Rightarrow> (Inl e, tasks1)
                       | Inr v2 \<Rightarrow>
                           let tasks2 = tasks1[i := (tasks1 ! i)\<lparr>description := v2\<rparr>] in
                           (case py_get data ''completed'' (completed (tasks2 ! i)) of
                              Inl e \<Rightarrow> (Inl e, tasks2)
                            | Inr v3 \<Rightarrow>
                                let tasks3 = tasks2[i := (tasks2 ! i)\<lparr>completed := v3\<rparr>]
                                in (Inr (TaskJson (tasks3 ! i), 200), tasks3))))))"

definition update_task :: "int \<Rightarrow> exn + json \<Rightarrow> task list \<Rightarrow> response \<times> task list" where
  "update_task tid get_json tasks = except_Exception (update_task_try tid get_json tasks)"

definition delete_task_try :: "int \<Rightarrow> task list \<Rightarrow> (exn + response) \<times> task list" where
  "delete_task_try tid tasks =
     (case next_task tid tasks of
        None \<Rightarrow> (Inr (Error ''Task not found'', 404), tasks)
      | Some i \<Rightarrow>
          (Inr (Message (''Task '' @ str_int tid @ '' deleted successfully''), 200),
           filter (\<lambda>t. task_id t \<noteq> tid) tasks))"

definition delete_task :: "int \<Rightarrow> task list \<Rightarrow> response \<times> task list" where
  "delete_task tid tasks = except_Exception (delete_task_try tid tasks)"

definition metrics :: "string \<Rightarrow> task list \<Rightarrow> response \<times> task list" where
  "metrics now tasks =
     ((Metrics (length tasks)
         (length (filter (\<lambda>t. truthy (completed t)) tasks))
         (length (filter (\<lambda>t. \<not> truthy (completed t)) tasks))
         (now @ ''Z''), 200), tasks)"

section \<open>Request sequences\<close>

text \<open>The requests that read or write the collection, and the collection after a
  sequence of them.\<close>

datatype request =
    GET_tasks
  | GET_task int
  | POST_tasks "exn + json" string
  | PUT_task int "exn + json"
  | DELETE_task int
  | GET_metrics string

fun handle :: "request \<Rightarrow> task list \<Rightarrow> response \<times> task list" where
  "handle GET_tasks tasks = get_tasks tasks"
| "handle (GET_task tid) tasks = get_task tid tasks"
| "handle (POST_tasks get_json now) tasks = create_task get_json now tasks"
| "handle (PUT_task tid get_json) tasks = update_task tid get_json tasks"
| "handle (DELETE_task tid) tasks = delete_task tid tasks"
| "handle (GET_metrics now) tasks = metrics now tasks"

fun run :: "request list \<Rightarrow> task list \<Rightarrow> task list" where
  "run [] tasks = tasks"
| "run (r # rs) tasks = run rs (snd (handle r tasks))"

lemmas handler_defs =
  create_task_def create_task_try_def update_task_def update_task_try_def
  delete_task_def delete_task_try_def get_task_def get_tasks_def metrics_def
  except_Exception_def Let_def

section \<open>Auxiliary facts\<close>

lemma py_max_default: "py_max [] d = d"
  by (simp add: py_max_def)

lemma py_max_Max: "xs \<noteq> [] \<Longrightarrow> py_max xs d = Max (set xs)"
  by (cases xs) (simp_all add: py_max_def Max.set_eq_fold del: set_simps)

lemma py_max_ge: "x \<in> set xs \<Longrightarrow> x \<le> py_max xs d"
  by (cases "xs = []") (simp_all add: py_max_Max)

lemma next_task_None: "next_task tid ts = None \<longleftrightarrow> tid \<notin> task_id ` set ts"
  by (induction ts) auto

lemma next_task_Some:
  "next_task tid ts = Some i \<Longrightarrow>
     i < length ts \<and> task_id (ts ! i) = tid \<and> tid \<notin> task_id ` set (take i ts)"
proof (induction ts arbitrary: i)
  case Nil
  then show ?case by simp
next
  case (Cons t ts)
  show ?case
  proof (cases "task_id t = tid")
    case True
    with Cons.prems show ?thesis by simp
  next
    case False
    with Cons.prems obtain j where j: "next_task tid ts = Some j" "i = Suc j"
      by auto
    from Cons.IH [OF j(1)] False j(2) show ?thesis by auto
  qed
qed

lemma next_task_SomeE:
  assumes "tid \<in> task_id ` set ts"
  obtains i where "next_task tid ts = Some i" "i < length ts" "task_id (ts ! i) = tid"
proof -
  from assms have "next_task tid ts \<noteq> None" by (simp add: next_task_None)
  then obtain i where "next_task tid ts = Some i" by auto
  with next_task_Some [OF this] that show thesis by blast
qed

text \<open>Where the keys are distinct, filtering out the key at position \<open>i\<close> drops that
  position and nothing else.\<close>

lemma filter_other_ids:
  "distinct (map f xs) \<Longrightarrow> i < length xs \<Longrightarrow>
     filter (\<lambda>x. f x \<noteq> f (xs ! i)) xs = take i xs @ drop (Suc i) xs"
proof (induction xs arbitrary: i)
  case Nil
  then show ?case by simp
next
  case (Cons a xs)
  show ?case
  proof (cases i)
    case 0
    from Cons.prems(1) have "f a \<notin> f ` set xs" by simp
    then have "\<forall>x \<in> set xs. f x \<noteq> f a" by (metis imageI)
    then have "filter (\<lambda>x. f x \<noteq> f a) xs = xs" by (simp add: filter_id_conv)
    with 0 show ?thesis by simp
  next
    case (Suc j)
    with Cons.prems have j: "j < length xs" and d: "distinct (map f xs)" by auto
    from j have "xs ! j \<in> set xs" by simp
    with Cons.prems(1) have "f a \<noteq> f (xs ! j)" by auto
    with Suc Cons.IH [OF d j] show ?thesis by simp
  qed
qed

text \<open>What each handler does to the ids of the collection.\<close>

lemma map_task_id_update:
  "task_id t = task_id (ts ! i) \<Longrightarrow> map task_id (ts[i := t]) = map task_id ts"
  by (cases "i < length ts") (auto simp: list_eq_iff_nth_eq nth_list_update)

lemma create_task_collection:
  "snd (create_task get_json now ts) = ts
   \<or> (\<exists>new. snd (create_task get_json now ts) = ts @ [new]
          \<and> task_id new = py_max (map task_id ts) 0 + 1)"
  by (auto simp: handler_defs split: sum.splits)

lemma update_task_ids: "map task_id (snd (update_task tid get_json ts)) = map task_id ts"
proof (cases "next_task tid ts")
  case None
  then show ?thesis by (simp add: handler_defs)
next
  case (Some i)
  then have "i < length ts" by (simp add: next_task_Some)
  with Some show ?thesis
    by (simp add: handler_defs map_task_id_update del: map_update split: sum.splits)
qed

lemma delete_task_collection:
  "snd (delete_task tid ts) = ts \<or> snd (delete_task tid ts) = filter (\<lambda>t. task_id t \<noteq> tid) ts"
  by (simp add: handler_defs split: option.splits)

lemma py_max_fresh: "py_max xs d + 1 \<notin> set xs"
proof
  assume "py_max xs d + 1 \<in> set xs"
  then have "py_max xs d + 1 \<le> py_max xs d" by (rule py_max_ge)
  then show False by simp
qed

lemma handle_distinct:
  assumes "distinct (map task_id ts)"
  shows "distinct (map task_id (snd (handle r ts)))"
proof (cases r)
  case (POST_tasks get_json now)
  from create_task_collection [of get_json now ts] assms py_max_fresh [of "map task_id ts" 0]
  show ?thesis unfolding POST_tasks by auto
next
  case (PUT_task tid get_json)
  with assms show ?thesis by (simp add: update_task_ids)
next
  case (DELETE_task tid)
  from delete_task_collection [of tid ts] assms
  show ?thesis unfolding DELETE_task by (auto simp: distinct_map_filter)
qed (use assms in \<open>simp_all add: handler_defs split: option.splits\<close>)

lemma run_distinct:
  "distinct (map task_id ts) \<Longrightarrow> distinct (map task_id (run rs ts))"
  by (induction rs arbitrary: ts) (simp_all add: handle_distinct)

lemma seed_tasks_distinct: "distinct (map task_id seed_tasks)"
  by (simp add: seed_tasks_def)

text \<open>The two counts of the metrics endpoint, read off the positions of the list.\<close>

lemma metrics_by_position:
  "metrics now ts =
     ((Metrics (length ts)
         (card {i. i < length ts \<and> truthy (completed (ts ! i))})
         (card {i. i < length ts \<and> \<not> truthy (completed (ts ! i))})
         (now @ ''Z''), 200), ts)"
  by (simp add: metrics_def length_filter_conv_card)

lemma completed_pending_total:
  "card {i. i < length ts \<and> truthy (completed (ts ! i))}
     + card {i. i < length ts \<and> \<not> truthy (completed (ts ! i))} = length ts"
  using sum_length_filter_compl [of "\<lambda>t. truthy (completed t)" ts]
  by (simp add: length_filter_conv_card)

section \<open>Creating a task\<close>

text \<open>
  C1. A create request whose body is an object with a title (empty or not) is answered
  with 201 and the new task: its id is one more than the largest id in the collection,
  that is 1 on the empty collection; it is not completed; it carries the title of the
  body and the description of the body, or the empty string when the body has none; and
  the collection afterwards is the old one with the new task appended at the end.
\<close>

theorem create_task_new_record:
  assumes "map_of kvs ''title'' = Some t"
  shows "create_task (Inr (JObj kvs)) now tasks =
           ((TaskJson
              \<lparr>task_id = (if tasks = [] then 0 else Max (task_id ` set tasks)) + 1,
               title = t,
               description = (case map_of kvs ''description'' of None \<Rightarrow> JStr [] | Some d \<Rightarrow> d),
               completed = JBool False,
               created_at = now @ ''Z''\<rparr>, 201),
            tasks @
             [\<lparr>task_id = (if tasks = [] then 0 else Max (task_id ` set tasks)) + 1,
               title = t,
               description = (case map_of kvs ''description'' of None \<Rightarrow> JStr [] | Some d \<Rightarrow> d),
               completed = JBool False,
               created_at = now @ ''Z''\<rparr>])
         \<and> (if tasks = [] then 0 else Max (task_id ` set tasks)) + 1
             = (if tasks = [] then 1 else Max (task_id ` set tasks) + 1)"
proof -
  from assms have ne: "kvs \<noteq> []" by auto
  have id_eq: "py_max (map task_id tasks) 0 = (if tasks = [] then 0 else Max (task_id ` set tasks))"
    by (cases "tasks = []") (simp_all add: py_max_default py_max_Max)
  show ?thesis
    using assms ne id_eq by (simp add: handler_defs)
qed

theorem create_task_new_record_witness:
  "map_of [(''title'', JStr ''Test Task''), (''description'', JStr ''This is a test task'')] ''title''
     = Some (JStr ''Test Task'')
   \<and> create_task
        (Inr (JObj [(''title'', JStr ''Test Task''), (''description'', JStr ''This is a test task'')]))
        ''2024-01-03T00:00:00'' seed_tasks
     = ((TaskJson \<lparr>task_id = 3, title = JStr ''Test Task'',
                    description = JStr ''This is a test task'', completed = JBool False,
                    created_at = ''2024-01-03T00:00:00Z''\<rparr>, 201),
        seed_tasks @ [\<lparr>task_id = 3, title = JStr ''Test Task'',
                    description = JStr ''This is a test task'', completed = JBool False,
                    created_at = ''2024-01-03T00:00:00Z''\<rparr>])"
  using create_task_new_record
    [of "[(''title'', JStr ''Test Task''), (''description'', JStr ''This is a test task'')]"
        "JStr ''Test Task''" "''2024-01-03T00:00:00''" seed_tasks]
  by (simp add: seed_tasks_def)

text \<open>
  C3, as the code has it. A create request whose body came out of \<^verbatim>\<open>get_json\<close> as None
  or as another value Python counts as false (the empty object among them), or as a value
  in which \<^verbatim>\<open>'title' in data\<close> is false (an object with no title key), is answered with
  400 and "Title is required", and the collection stays as it was. The value of a title
  that is present is not looked at.
\<close>

theorem create_task_title_required:
  assumes "\<not> truthy data \<or> py_contains ''title'' data = Inr False"
  shows "create_task (Inr data) now tasks = ((Error ''Title is required'', 400), tasks)"
  using assms by (auto simp: handler_defs)

theorem create_task_title_required_witness:
  "py_contains ''title'' (JObj [(''description'', JStr ''no title'')]) = Inr False
   \<and> create_task (Inr (JObj [(''description'', JStr ''no title'')])) ''2024-01-03T00:00:00''
        seed_tasks
       = ((Error ''Title is required'', 400), seed_tasks)"
  using create_task_title_required
    [of "JObj [(''description'', JStr ''no title'')]" "''2024-01-03T00:00:00''" seed_tasks]
  by simp

text \<open>
  A body whose title is the empty string is not rejected: the request is answered with
  201 and a task with the empty title joins the collection.
\<close>

theorem create_task_empty_title_accepted:
  "create_task (Inr (JObj [(''title'', JStr [])])) ''2024-01-03T00:00:00'' seed_tasks
     = ((TaskJson \<lparr>task_id = 3, title = JStr [], description = JStr [], completed = JBool False,
                   created_at = ''2024-01-03T00:00:00Z''\<rparr>, 201),
        seed_tasks @ [\<lparr>task_id = 3, title = JStr [], description = JStr [], completed = JBool False,
                   created_at = ''2024-01-03T00:00:00Z''\<rparr>])
   \<and> create_task (Inr (JObj [(''title'', JStr [])])) ''2024-01-03T00:00:00'' seed_tasks
     \<noteq> ((Error ''Title is required'', 400), seed_tasks)"
  by (simp add: handler_defs seed_tasks_def py_max_def)

section \<open>Updating a task\<close>

text \<open>
  C4. An update of an id that is in the collection, with an object as body, changes one
  task, the first with that id: its title, description and completion flag each take the
  value the body has under that key, and keep their value when the body has no such key;
  its id and its creation time stay; the collection keeps its length and every other
  position keeps its task. Unless the object is empty the answer is 200 with the task
  as updated.
\<close>

theorem update_task_patch:
  assumes "tid \<in> task_id ` set tasks"
  shows "\<exists>i t'. i < length tasks \<and> task_id (tasks ! i) = tid
     \<and> snd (update_task tid (Inr (JObj kvs)) tasks) = tasks[i := t']
     \<and> title t' = (case map_of kvs ''title'' of None \<Rightarrow> title (tasks ! i) | Some v \<Rightarrow> v)
     \<and> description t' =
         (case map_of kvs ''description'' of None \<Rightarrow> description (tasks ! i) | Some v \<Rightarrow> v)
     \<and> completed t' =
         (case map_of kvs ''completed'' of None \<Rightarrow> completed (tasks ! i) | Some v \<Rightarrow> v)
     \<and> task_id t' = task_id (tasks ! i)
     \<and> created_at t' = created_at (tasks ! i)
     \<and> length (snd (update_task tid (Inr (JObj kvs)) tasks)) = length tasks
     \<and> (\<forall>j. j < length tasks \<and> j \<noteq> i \<longrightarrow>
           snd (update_task tid (Inr (JObj kvs)) tasks) ! j = tasks ! j)
     \<and> (kvs \<noteq> [] \<longrightarrow> fst (update_task tid (Inr (JObj kvs)) tasks) = (TaskJson t', 200))"
proof -
  from assms obtain i where i: "next_task tid tasks = Some i" "i < length tasks"
    "task_id (tasks ! i) = tid"
    by (rule next_task_SomeE)
  define t' where "t' =
    (tasks ! i)\<lparr>title := (case map_of kvs ''title'' of None \<Rightarrow> title (tasks ! i) | Some v \<Rightarrow> v),
      description := (case map_of kvs ''description'' of None \<Rightarrow> description (tasks ! i) | Some v \<Rightarrow> v),
      completed := (case map_of kvs ''completed'' of None \<Rightarrow> completed (tasks ! i) | Some v \<Rightarrow> v)\<rparr>"
  have st: "snd (update_task tid (Inr (JObj kvs)) tasks) = tasks[i := t']"
  proof (cases "kvs = []")
    case True
    then have "t' = tasks ! i" by (simp add: t'_def)
    with True i show ?thesis by (simp add: handler_defs)
  next
    case False
    with i show ?thesis by (simp add: handler_defs t'_def split: option.split)
  qed
  have resp: "kvs \<noteq> [] \<longrightarrow> fst (update_task tid (Inr (JObj kvs)) tasks) = (TaskJson t', 200)"
    using i by (simp add: handler_defs t'_def split: option.split)
  have fields: "title t' = (case map_of kvs ''title'' of None \<Rightarrow> title (tasks ! i) | Some v \<Rightarrow> v)"
    "description t' = (case map_of kvs ''description'' of None \<Rightarrow> description (tasks ! i) | Some v \<Rightarrow> v)"
    "completed t' = (case map_of kvs ''completed'' of None \<Rightarrow> completed (tasks ! i) | Some v \<Rightarrow> v)"
    "task_id t' = task_id (tasks ! i)" "created_at t' = created_at (tasks ! i)"
    by (simp_all add: t'_def)
  have others: "length (tasks[i := t']) = length tasks"
    "\<forall>j. j < length tasks \<and> j \<noteq> i \<longrightarrow> tasks[i := t'] ! j = tasks ! j"
    by simp_all
  from i(2,3) st fields others resp show ?thesis
    by (intro exI [of _ i] exI [of _ t']) simp
qed

theorem update_task_patch_witness:
  "1 \<in> task_id ` set seed_tasks
   \<and> update_task 1 (Inr (JObj [(''title'', JStr ''Updated Task''), (''completed'', JBool True)]))
        seed_tasks
     = ((TaskJson \<lparr>task_id = 1, title = JStr ''Updated Task'',
                    description = JStr ''Understand containerization'',
                    completed = JBool True, created_at = ''2024-01-01T00:00:00Z''\<rparr>, 200),
        [\<lparr>task_id = 1, title = JStr ''Updated Task'',
          description = JStr ''Understand containerization'',
          completed = JBool True, created_at = ''2024-01-01T00:00:00Z''\<rparr>,
         \<lparr>task_id = 2, title = JStr ''Learn Kubernetes'',
          description = JStr ''Master container orchestration'',
          completed = JBool False, created_at = ''2024-01-02T00:00:00Z''\<rparr>])"
  using update_task_patch
    [of 1 seed_tasks "[(''title'', JStr ''Updated Task''), (''completed'', JBool True)]"]
  by (simp add: seed_tasks_def handler_defs)

text \<open>
  C9. The update handler looks the id up before it reads the body: for an id that is not
  in the collection the answer is 404 "Task not found" whatever \<^verbatim>\<open>get_json\<close> would have
  returned or raised, and the collection is untouched; an answer 400 "No data provided"
  is given only for an id that is in the collection.
\<close>

theorem update_task_lookup_first:
  "(tid \<notin> task_id ` set tasks \<longrightarrow>
      update_task tid get_json tasks = ((Error ''Task not found'', 404), tasks))
   \<and> (fst (update_task tid get_json tasks) = (Error ''No data provided'', 400) \<longrightarrow>
      tid \<in> task_id ` set tasks)"
proof (cases "next_task tid tasks")
  case None
  then have "update_task tid get_json tasks = ((Error ''Task not found'', 404), tasks)"
    by (simp add: handler_defs)
  then show ?thesis by simp
next
  case (Some i)
  then have "tid \<in> task_id ` set tasks"
    using next_task_None [of tid tasks] by auto
  then show ?thesis by simp
qed

theorem update_task_lookup_first_witness:
  "999 \<notin> task_id ` set seed_tasks
   \<and> update_task 999 (Inl BadRequest) seed_tasks = ((Error ''Task not found'', 404), seed_tasks)
   \<and> update_task 999 (Inr JNull) seed_tasks = ((Error ''Task not found'', 404), seed_tasks)
   \<and> fst (update_task 2 (Inr JNull) seed_tasks) = (Error ''No data provided'', 400)
   \<and> 2 \<in> task_id ` set seed_tasks"
  using update_task_lookup_first [of 999 seed_tasks "Inl BadRequest"]
    update_task_lookup_first [of 999 seed_tasks "Inr JNull"]
    update_task_lookup_first [of 2 seed_tasks "Inr JNull"]
  by (simp add: seed_tasks_def handler_defs)

text \<open>
  C10. For an id that is in the collection, an update whose body is the empty object is
  answered with 400 "No data provided", and the collection, the task with it, stays as
  it was.
\<close>

theorem update_task_empty_object:
  assumes "tid \<in> task_id ` set tasks"
  shows "update_task tid (Inr (JObj [])) tasks = ((Error ''No data provided'', 400), tasks)"
proof -
  from assms obtain i where "next_task tid tasks = Some i"
    by (rule next_task_SomeE)
  then show ?thesis
    by (simp add: handler_defs)
qed

theorem update_task_empty_object_witness:
  "1 \<in> task_id ` set seed_tasks
   \<and> update_task 1 (Inr (JObj [])) seed_tasks = ((Error ''No data provided'', 400), seed_tasks)"
  using update_task_empty_object [of 1 seed_tasks]
  by (simp add: seed_tasks_def)

text \<open>
  C7, evaluated on the code. \<^verbatim>\<open>get_json\<close> raises \<open>BadRequest\<close> on a body that does not
  parse; the call stands inside the \<^verbatim>\<open>try\<close> block of both handlers, so the exception is
  caught there and answered with 500 "Internal server error", for a create request and
  for an update of an id that exists. The collection is unchanged.
\<close>

theorem unparseable_body_answered_500:
  "create_task (Inl BadRequest) ''2024-01-03T00:00:00'' seed_tasks
     = ((Error ''Internal server error'', 500), seed_tasks)
   \<and> update_task 1 (Inl BadRequest) seed_tasks
     = ((Error ''Internal server error'', 500), seed_tasks)"
  by (simp add: handler_defs seed_tasks_def)

section \<open>Deleting a task\<close>

text \<open>
  C5. In a collection whose ids are distinct, deleting an id that is present is answered
  with 200 and removes the one task with that id, leaving the others in their order;
  reading the id right afterwards is answered with 404 "Task not found", and so is
  deleting it a second time. Deleting an id that is not present is answered with 404 and
  leaves the collection as it was.
\<close>

theorem delete_task_removes:
  assumes "distinct (map task_id tasks)"
  shows "(tid \<in> task_id ` set tasks \<longrightarrow>
           (\<exists>i. i < length tasks \<and> task_id (tasks ! i) = tid
              \<and> delete_task tid tasks =
                  ((Message (''Task '' @ str_int tid @ '' deleted successfully''), 200),
                   take i tasks @ drop (Suc i) tasks))
           \<and> get_task tid (snd (delete_task tid tasks)) =
               ((Error ''Task not found'', 404), snd (delete_task tid tasks))
           \<and> delete_task tid (snd (delete_task tid tasks)) =
               ((Error ''Task not found'', 404), snd (delete_task tid tasks)))
       \<and> (tid \<notin> task_id ` set tasks \<longrightarrow>
           delete_task tid tasks = ((Error ''Task not found'', 404), tasks))"
proof (cases "tid \<in> task_id ` set tasks")
  case False
  then have "next_task tid tasks = None" by (simp add: next_task_None)
  then have "delete_task tid tasks = ((Error ''Task not found'', 404), tasks)"
    by (simp add: handler_defs)
  with False show ?thesis by simp
next
  case True
  then obtain i where i: "next_task tid tasks = Some i" "i < length tasks"
    "task_id (tasks ! i) = tid"
    by (rule next_task_SomeE)
  have rest: "filter (\<lambda>t. task_id t \<noteq> tid) tasks = take i tasks @ drop (Suc i) tasks"
    using filter_other_ids [OF assms i(2)] i(3) by simp
  have del: "delete_task tid tasks =
      ((Message (''Task '' @ str_int tid @ '' deleted successfully''), 200),
       take i tasks @ drop (Suc i) tasks)"
    using i(1) rest by (simp add: handler_defs)
  have "tid \<notin> task_id ` set (filter (\<lambda>t. task_id t \<noteq> tid) tasks)" by auto
  with rest have gone: "next_task tid (take i tasks @ drop (Suc i) tasks) = None"
    by (simp add: next_task_None)
  have after: "get_task tid (snd (delete_task tid tasks)) =
               ((Error ''Task not found'', 404), snd (delete_task tid tasks))"
    "delete_task tid (snd (delete_task tid tasks)) =
               ((Error ''Task not found'', 404), snd (delete_task tid tasks))"
    using gone by (simp_all add: del) (simp_all add: handler_defs)
  from True i(2,3) del after show ?thesis by blast
qed

theorem delete_task_removes_witness:
  "distinct (map task_id seed_tasks)
   \<and> 2 \<in> task_id ` set seed_tasks
   \<and> delete_task 2 seed_tasks =
       ((Message ''Task 2 deleted successfully'', 200), take 1 seed_tasks)
   \<and> get_task 2 (take 1 seed_tasks) = ((Error ''Task not found'', 404), take 1 seed_tasks)
   \<and> delete_task 2 (take 1 seed_tasks) = ((Error ''Task not found'', 404), take 1 seed_tasks)
   \<and> 999 \<notin> task_id ` set seed_tasks
   \<and> delete_task 999 seed_tasks = ((Error ''Task not found'', 404), seed_tasks)"
  using delete_task_removes [of seed_tasks 2] delete_task_removes [of seed_tasks 999]
  by (simp add: seed_tasks_def handler_defs str_int_def str_nat.simps digit_char_def)

section \<open>Listing the tasks\<close>

text \<open>
  C8. Listing the tasks answers 200 with the tasks in their order and their number, and
  leaves the collection as it was; listing again right away gives the same answer.
\<close>

theorem get_tasks_repeatable:
  "handle GET_tasks tasks = ((TaskList tasks (length tasks), 200), tasks)
   \<and> handle GET_tasks (snd (handle GET_tasks tasks)) = handle GET_tasks tasks"
  by (simp add: get_tasks_def)

section \<open>The ids of the collection\<close>

text \<open>
  C6, as the code has it. After every sequence of requests from the seed collection the
  ids of the tasks in the collection are pairwise distinct, and a task created then gets
  an id larger than every id in the collection at that moment, so the collection with the
  new task has distinct ids again. Nothing records the ids of deleted tasks.
\<close>

theorem ids_distinct_new_id_largest:
  "distinct (map task_id (run rs seed_tasks))
   \<and> (map_of kvs ''title'' = Some t \<longrightarrow>
        (\<exists>new. create_task (Inr (JObj kvs)) now (run rs seed_tasks)
                  = ((TaskJson new, 201), run rs seed_tasks @ [new])
           \<and> (\<forall>u \<in> set (run rs seed_tasks). task_id u < task_id new)
           \<and> distinct (map task_id (run rs seed_tasks @ [new]))))"
proof -
  define ts where "ts = run rs seed_tasks"
  have d: "distinct (map task_id ts)"
    unfolding ts_def by (rule run_distinct [OF seed_tasks_distinct])
  have "\<exists>new. create_task (Inr (JObj kvs)) now ts = ((TaskJson new, 201), ts @ [new])
           \<and> (\<forall>u \<in> set ts. task_id u < task_id new)
           \<and> distinct (map task_id (ts @ [new]))"
    if t: "map_of kvs ''title'' = Some t"
  proof -
    define new where "new = \<lparr>task_id = py_max (map task_id ts) 0 + 1, title = t,
      description = (case map_of kvs ''description'' of None \<Rightarrow> JStr [] | Some d \<Rightarrow> d),
      completed = JBool False, created_at = now @ ''Z''\<rparr>"
    from t have "kvs \<noteq> []" by auto
    with t have c: "create_task (Inr (JObj kvs)) now ts = ((TaskJson new, 201), ts @ [new])"
      by (simp add: handler_defs new_def)
    have lt: "\<forall>u \<in> set ts. task_id u < task_id new"
    proof
      fix u assume "u \<in> set ts"
      then have "task_id u \<le> py_max (map task_id ts) 0" by (intro py_max_ge) simp
      then show "task_id u < task_id new" by (simp add: new_def)
    qed
    then have "task_id new \<notin> task_id ` set ts" by auto
    with d have "distinct (map task_id (ts @ [new]))" by simp
    with c lt show ?thesis by blast
  qed
  with d show ?thesis unfolding ts_def by blast
qed

theorem ids_distinct_new_id_largest_witness:
  "distinct (map task_id (run [DELETE_task 2] seed_tasks))
   \<and> map_of [(''title'', JStr ''Again'')] ''title'' = Some (JStr ''Again'')
   \<and> create_task (Inr (JObj [(''title'', JStr ''Again'')])) ''2024-01-04T00:00:00''
        (run [DELETE_task 2] seed_tasks)
      = ((TaskJson \<lparr>task_id = 2, title = JStr ''Again'', description = JStr [],
                     completed = JBool False, created_at = ''2024-01-04T00:00:00Z''\<rparr>, 201),
         run [DELETE_task 2] seed_tasks @
           [\<lparr>task_id = 2, title = JStr ''Again'', description = JStr [],
             completed = JBool False, created_at = ''2024-01-04T00:00:00Z''\<rparr>])"
  using ids_distinct_new_id_largest
    [of "[DELETE_task 2]" "[(''title'', JStr ''Again'')]" "JStr ''Again''" "''2024-01-04T00:00:00''"]
  by (simp add: seed_tasks_def handler_defs py_max_def)

text \<open>
  An id is assigned again once the task that had it is deleted while it was the largest:
  from the seed collection a create request gets id 3, deleting 3 gives the seed
  collection back, and the next create request gets id 3 again.
\<close>

theorem deleted_id_assigned_again:
  "handle (POST_tasks (Inr (JObj [(''title'', JStr ''First'')])) ''2024-01-03T00:00:00'') seed_tasks
     = ((TaskJson \<lparr>task_id = 3, title = JStr ''First'', description = JStr [],
                    completed = JBool False, created_at = ''2024-01-03T00:00:00Z''\<rparr>, 201),
        seed_tasks @ [\<lparr>task_id = 3, title = JStr ''First'', description = JStr [],
                    completed = JBool False, created_at = ''2024-01-03T00:00:00Z''\<rparr>])
   \<and> handle (DELETE_task 3)
        (seed_tasks @ [\<lparr>task_id = 3, title = JStr ''First'', description = JStr [],
                    completed = JBool False, created_at = ''2024-01-03T00:00:00Z''\<rparr>])
     = ((Message ''Task 3 deleted successfully'', 200), seed_tasks)
   \<and> handle (POST_tasks (Inr (JObj [(''title'', JStr ''Second'')])) ''2024-01-04T00:00:00'') seed_tasks
     = ((TaskJson \<lparr>task_id = 3, title = JStr ''Second'', description = JStr [],
                    completed = JBool False, created_at = ''2024-01-04T00:00:00Z''\<rparr>, 201),
        seed_tasks @ [\<lparr>task_id = 3, title = JStr ''Second'', description = JStr [],
                    completed = JBool False, created_at = ''2024-01-04T00:00:00Z''\<rparr>])"
  by (simp add: seed_tasks_def handler_defs py_max_def str_int_def str_nat.simps digit_char_def)

section \<open>Metrics\<close>

text \<open>
  C2. After every sequence of requests from the seed collection, the metrics endpoint
  answers 200 with: as total the length of the collection; as completed the number of
  tasks whose completion flag is true, and as pending the number of tasks whose flag is
  not true, both in the sense of Python's truth value, which is the one
  \<^verbatim>\<open>if task["completed"]\<close> tests and is the flag itself when the flag is a boolean; and the
  total is the sum of the two. The collection is left as it was.
\<close>

theorem metrics_counts:
  "handle (GET_metrics now) (run rs seed_tasks) =
     ((Metrics (length (run rs seed_tasks))
         (card {i. i < length (run rs seed_tasks) \<and> truthy (completed (run rs seed_tasks ! i))})
         (card {i. i < length (run rs seed_tasks) \<and> \<not> truthy (completed (run rs seed_tasks ! i))})
         (now @ ''Z''), 200), run rs seed_tasks)
   \<and> length (run rs seed_tasks) =
       card {i. i < length (run rs seed_tasks) \<and> truthy (completed (run rs seed_tasks ! i))}
       + card {i. i < length (run rs seed_tasks) \<and> \<not> truthy (completed (run rs seed_tasks ! i))}"
  by (simp add: metrics_by_position completed_pending_total)

text \<open>
  The counts after three requests: the first seed task is completed with \<^verbatim>\<open>true\<close>, the
  second with the string \<^verbatim>\<open>"yes"\<close>, which Python counts as true, and a third task is
  created.
\<close>

theorem metrics_counts_witness:
  "handle (GET_metrics ''2024-01-05T00:00:00'')
     (run [PUT_task 1 (Inr (JObj [(''completed'', JBool True)])),
           PUT_task 2 (Inr (JObj [(''completed'', JStr ''yes'')])),
           POST_tasks (Inr (JObj [(''title'', JStr ''Third'')])) ''2024-01-03T00:00:00'']
        seed_tasks)
   = ((Metrics 3 2 1 ''2024-01-05T00:00:00Z'', 200),
      run [PUT_task 1 (Inr (JObj [(''completed'', JBool True)])),
           PUT_task 2 (Inr (JObj [(''completed'', JStr ''yes'')])),
           POST_tasks (Inr (JObj [(''title'', JStr ''Third'')])) ''2024-01-03T00:00:00'']
        seed_tasks)"
  using metrics_counts
    [of "''2024-01-05T00:00:00''"
        "[PUT_task 1 (Inr (JObj [(''completed'', JBool True)])),
          PUT_task 2 (Inr (JObj [(''completed'', JStr ''yes'')])),
          POST_tasks (Inr (JObj [(''title'', JStr ''Third'')])) ''2024-01-03T00:00:00'']"]
  by (simp add: seed_tasks_def handler_defs py_max_def)

end
